theory Spec2Isabelle
  imports Main "HOL-Library.Sublist"
begin

section \<open>Data model\<close>

text \<open>
  The resource file \<^verbatim>\<open>resource_genesyscloud_simple_routing_queue.go\<close> moves three
  attributes between the local resource data \<^verbatim>\<open>d\<close> and the remote queue. Pointer fields
  of the SDK structs are options (\<open>None\<close> is the nil pointer); a Go \<^verbatim>\<open>error\<close> is the
  text it renders to, \<open>None\<close> being the nil error.
\<close>

record Queue =
  q_Id :: "string option"
  q_Name :: "string option"
  q_CallingPartyName :: "string option"
  q_EnableTranscription :: "bool option"

record Createqueuerequest =
  cq_Name :: "string option"
  cq_CallingPartyName :: "string option"
  cq_EnableTranscription :: "bool option"

record Queuerequest =
  uq_Name :: "string option"
  uq_CallingPartyName :: "string option"
  uq_EnableTranscription :: "bool option"

text \<open>The schema resource data: the identity (\<^verbatim>\<open>d.Id()\<close>, empty before creation) and the
  three typed attributes read with \<^verbatim>\<open>d.Get\<close> and written with \<^verbatim>\<open>d.Set\<close>.\<close>

record ResourceData =
  d_Id :: string
  d_name :: string
  d_calling_party_name :: string
  d_enable_transcription :: bool

text \<open>\<^verbatim>\<open>resource.RetryError\<close>: what one check of a poll answers when it is not nil.\<close>

datatype retry_error = RetryableError string | NonRetryableError string

text \<open>What an operation hands back to its caller: no diagnostics, an error diagnostic
  (\<^verbatim>\<open>diag.Errorf\<close>, or a poll ended by a non-retryable error), or a poll ended by its
  ceiling, carrying the last retryable reason.\<close>

datatype outcome = Success | TerminalFailure string | TimeoutFailure string

datatype panic = NilPointerDereference

text \<open>The remote side is observed through the calls made on it. The world is a clock in
  milliseconds and the trace of calls and sleeps so far.\<close>

datatype event =
    CreateCall Createqueuerequest
  | GetCall string
  | UpdateCall string Queuerequest
  | DeleteCall string
  | Sleep nat

record world =
  clock :: nat
  trace :: "event list"

text \<open>
  Everything the four operations reach through \<^verbatim>\<open>meta\<close>: the proxy's four calls (an
  external collaborator; each answer may depend on everything that happened before, hence
  on the world), the time a call takes, and two parts of the repository that are outside
  the resource file and are taken as parameters: the ceiling \<^verbatim>\<open>gcloud.WithRetriesForRead\<close> polls
  with, and the verdict of the consistency checker (\<^verbatim>\<open>cc.CheckState()\<close>), which is built
  from \<^verbatim>\<open>d\<close> before the observed values are written and asked after.
\<close>

record ProviderMeta =
  createRoutingQueue :: "world \<Rightarrow> Createqueuerequest \<Rightarrow> Queue option \<times> int \<times> string option"
  getRoutingQueue :: "world \<Rightarrow> string \<Rightarrow> Queue option \<times> int \<times> string option"
  updateRoutingQueue :: "world \<Rightarrow> string \<Rightarrow> Queuerequest \<Rightarrow> Queue option \<times> int \<times> string option"
  deleteRoutingQueue :: "world \<Rightarrow> string \<Rightarrow> int \<times> string option"
  latency :: "world \<Rightarrow> event \<Rightarrow> nat"
  readTimeout :: nat
  CheckState :: "ResourceData \<Rightarrow> ResourceData \<Rightarrow> retry_error option"

type_synonym state = "ResourceData \<times> world"

type_synonym result = "(panic + outcome \<times> state) option"

section \<open>Time and calls\<close>

definition Second :: nat where
  "Second = 1000"

definition perform :: "ProviderMeta \<Rightarrow> event \<Rightarrow> world \<Rightarrow> world" where
  "perform meta ev w = \<lparr>clock = clock w + latency meta w ev, trace = trace w @ [ev]\<rparr>"

definition sleep :: "nat \<Rightarrow> world \<Rightarrow> world" where
  "sleep n w = \<lparr>clock = clock w + n, trace = trace w @ [Sleep n]\<rparr>"

text \<open>Modelled from the spec: \<^verbatim>\<open>gcloud.IsStatus404ByInt\<close> is defined outside the resource file; it is the
  classifier \<^verbatim>\<open>isNotFound(statusCode)\<close> of the spec, true on the 404-equivalent status.\<close>

definition IsStatus404ByInt :: "int \<Rightarrow> bool" where
  "IsStatus404ByInt respCode \<longleftrightarrow> respCode = 404"

section \<open>The retry/poll engine\<close>

text \<open>
  Modelled from the spec: \<^verbatim>\<open>gcloud.WithRetries\<close> and \<^verbatim>\<open>gcloud.WithRetriesForRead\<close> are
  defined outside the resource file. The spec's \<^verbatim>\<open>pollUntil(checkFn, maxDuration)\<close> calls the check again and
  again: nil ends the poll with success, a non-retryable error ends it with a terminal
  failure, a retryable error makes it try again until the wall-clock ceiling has elapsed,
  when it gives the timeout failure with the last retryable reason. There is no sleep
  between attempts, so time passes only inside the check; a check that takes no time and
  always asks for a retry makes the poll run forever, which is the value \<open>None\<close>. A panic
  inside the check ends everything. Cancellation by the context is not modelled.
\<close>

partial_function (option) pollUntil ::
  "(state \<Rightarrow> panic + retry_error option \<times> state) \<Rightarrow> nat \<Rightarrow> state \<Rightarrow> (panic + outcome \<times> state) option"
where
  "pollUntil checkFn deadline s =
     (case checkFn s of
        Inl p \<Rightarrow> Some (Inl p)
      | Inr r \<Rightarrow>
          (case fst r of
             None \<Rightarrow> Some (Inr (Success, snd r))
           | Some (NonRetryableError reason) \<Rightarrow> Some (Inr (TerminalFailure reason, snd r))
           | Some (RetryableError reason) \<Rightarrow>
               if deadline \<le> clock (snd (snd r)) then Some (Inr (TimeoutFailure reason, snd r))
               else pollUntil checkFn deadline (snd r)))"

declare pollUntil.simps [code]

definition WithRetries ::
  "nat \<Rightarrow> (state \<Rightarrow> panic + retry_error option \<times> state) \<Rightarrow> state \<Rightarrow> result" where
  "WithRetries maxDuration method s = pollUntil method (clock (snd s) + maxDuration) s"

definition WithRetriesForRead ::
  "ProviderMeta \<Rightarrow> (state \<Rightarrow> panic + retry_error option \<times> state) \<Rightarrow> state \<Rightarrow> result" where
  "WithRetriesForRead meta method s = WithRetries (readTimeout meta) method s"

section \<open>Reconciliation\<close>

text \<open>Modelled from the spec: \<^verbatim>\<open>resourcedata.SetNillableValue\<close> is defined outside the resource file. By the
  spec a field absent from the observed payload leaves the local value untouched, and a
  field that is present is written. The key is given as the setter of its field.\<close>

definition SetNillableValue ::
  "ResourceData \<Rightarrow> ('a \<Rightarrow> ResourceData \<Rightarrow> ResourceData) \<Rightarrow> 'a option \<Rightarrow> ResourceData" where
  "SetNillableValue d key v = (case v of None \<Rightarrow> d | Some x \<Rightarrow> key x d)"

text \<open>Lines 91 to 93 of \<^verbatim>\<open>readSimpleRoutingQueue\<close>: the name is dereferenced as it is, the
  two optional fields go through \<^verbatim>\<open>SetNillableValue\<close>.\<close>

definition setObserved :: "ResourceData \<Rightarrow> Queue option \<Rightarrow> panic + ResourceData" where
  "setObserved d currentQueue =
     (case currentQueue of
        None \<Rightarrow> Inl NilPointerDereference
      | Some q \<Rightarrow>
          (case q_Name q of
             None \<Rightarrow> Inl NilPointerDereference
           | Some n \<Rightarrow>
               (let d1 = d\<lparr>d_name := n\<rparr>;
                    d2 = SetNillableValue d1 (\<lambda>v r. r\<lparr>d_calling_party_name := v\<rparr>) (q_CallingPartyName q);
                    d3 = SetNillableValue d2 (\<lambda>v r. r\<lparr>d_enable_transcription := v\<rparr>) (q_EnableTranscription q)
                in Inr d3)))"

text \<open>Running the step again on what the first run left, a panic of the first run being
  the end.\<close>

definition setObservedTwice :: "ResourceData \<Rightarrow> Queue option \<Rightarrow> panic + ResourceData" where
  "setObservedTwice d currentQueue =
     (case setObserved d currentQueue of Inl p \<Rightarrow> Inl p | Inr d' \<Rightarrow> setObserved d' currentQueue)"

section \<open>The four operations\<close>

text \<open>Each operation takes the resource data and the world and returns its diagnostics
  with the resource data and the world it leaves, or panics, or never returns (\<open>None\<close>).
  The \<^verbatim>\<open>log.Printf\<close> lines have no effect on either and are left out.\<close>

text \<open>The closure \<^verbatim>\<open>readSimpleRoutingQueue\<close> hands to \<^verbatim>\<open>WithRetriesForRead\<close>.\<close>

definition readCheck :: "ProviderMeta \<Rightarrow> state \<Rightarrow> panic + retry_error option \<times> state" where
  "readCheck meta s =
     (let d = fst s; w = snd s;
          resp = getRoutingQueue meta w (d_Id d);
          currentQueue = fst resp; respCode = fst (snd resp); err = snd (snd resp);
          w' = perform meta (GetCall (d_Id d)) w
      in case err of
           Some e \<Rightarrow>
             if IsStatus404ByInt respCode
             then Inr (Some (RetryableError (''failed to read queue '' @ d_Id d @ '': '' @ e)), (d, w'))
             else Inr (Some (NonRetryableError (''failed to read queue '' @ d_Id d @ '': '' @ e)), (d, w'))
         | None \<Rightarrow>
             (case setObserved d currentQueue of
                Inl p \<Rightarrow> Inl p
              | Inr d' \<Rightarrow> Inr (CheckState meta d d', (d', w'))))"

definition readSimpleRoutingQueue :: "ProviderMeta \<Rightarrow> ResourceData \<Rightarrow> world \<Rightarrow> result" where
  "readSimpleRoutingQueue meta d w = WithRetriesForRead meta (readCheck meta) (d, w)"

text \<open>The request structs both mutations build from the three attributes of \<^verbatim>\<open>d\<close>.\<close>

definition queueCreate :: "ResourceData \<Rightarrow> Createqueuerequest" where
  "queueCreate d =
     (let name = d_name d;
          callingPartyName = d_calling_party_name d;
          enableTranscription = d_enable_transcription d
      in \<lparr>cq_Name = Some name, cq_CallingPartyName = Some callingPartyName,
          cq_EnableTranscription = Some enableTranscription\<rparr>)"

definition queueUpdate :: "ResourceData \<Rightarrow> Queuerequest" where
  "queueUpdate d =
     (let name = d_name d;
          callingPartyName = d_calling_party_name d;
          enableTranscription = d_enable_transcription d
      in \<lparr>uq_Name = Some name, uq_CallingPartyName = Some callingPartyName,
          uq_EnableTranscription = Some enableTranscription\<rparr>)"

definition createSimpleRoutingQueue :: "ProviderMeta \<Rightarrow> ResourceData \<Rightarrow> world \<Rightarrow> result" where
  "createSimpleRoutingQueue meta d w =
     (let name = d_name d;
          resp = createRoutingQueue meta w (queueCreate d);
          queueResp = fst resp; err = snd (snd resp);
          w' = perform meta (CreateCall (queueCreate d)) w
      in case err of
           Some e \<Rightarrow> Some (Inr (TerminalFailure (''failed to create queue '' @ name @ '': '' @ e), (d, w')))
         | None \<Rightarrow>
             (case queueResp of
                None \<Rightarrow> Some (Inl NilPointerDereference)
              | Some q \<Rightarrow>
                  (case q_Id q of
                     None \<Rightarrow> Some (Inl NilPointerDereference)
                   | Some i \<Rightarrow> readSimpleRoutingQueue meta (d\<lparr>d_Id := i\<rparr>) w')))"

definition updateSimpleRoutingQueue :: "ProviderMeta \<Rightarrow> ResourceData \<Rightarrow> world \<Rightarrow> result" where
  "updateSimpleRoutingQueue meta d w =
     (let name = d_name d;
          resp = updateRoutingQueue meta w (d_Id d) (queueUpdate d);
          err = snd (snd resp);
          w' = perform meta (UpdateCall (d_Id d) (queueUpdate d)) w
      in case err of
           Some e \<Rightarrow> Some (Inr (TerminalFailure (''failed to update queue '' @ name @ '': '' @ e), (d, w')))
         | None \<Rightarrow> readSimpleRoutingQueue meta d w')"

text \<open>The closure \<^verbatim>\<open>deleteSimpleRoutingQueue\<close> hands to \<^verbatim>\<open>WithRetries\<close>. In its first
  branch \<^verbatim>\<open>err\<close> is nil, and \<^verbatim>\<open>%s\<close> renders a nil error as \<^verbatim>\<open>%!s(<nil>)\<close>.\<close>

definition deleteCheck :: "ProviderMeta \<Rightarrow> state \<Rightarrow> panic + retry_error option \<times> state" where
  "deleteCheck meta s =
     (let d = fst s; w = snd s;
          resp = getRoutingQueue meta w (d_Id d);
          respCode = fst (snd resp); err = snd (snd resp);
          w' = perform meta (GetCall (d_Id d)) w
      in if err = None
         then Inr (Some (NonRetryableError (''error deleting routing queue '' @ d_Id d @ '': %!s(<nil>)'')), (d, w'))
         else if IsStatus404ByInt respCode
         then Inr (None, (d, w'))
         else Inr (Some (RetryableError (''routing queue '' @ d_Id d @ '' still exists'')), (d, w')))"

definition deleteSimpleRoutingQueue :: "ProviderMeta \<Rightarrow> ResourceData \<Rightarrow> world \<Rightarrow> result" where
  "deleteSimpleRoutingQueue meta d w =
     (let resp = deleteRoutingQueue meta w (d_Id d);
          err = snd resp;
          w' = perform meta (DeleteCall (d_Id d)) w
      in case err of
           Some e \<Rightarrow> Some (Inr (TerminalFailure (''failed to delete queue '' @ d_Id d @ '': '' @ e), (d, w')))
         | None \<Rightarrow> WithRetries (30 * Second) (deleteCheck meta) (d, sleep (5 * Second) w'))"

section \<open>Notions the properties are stated with\<close>

text \<open>The world after \<open>k\<close> further reads of the identity \<open>i\<close>.\<close>

fun afterReads :: "ProviderMeta \<Rightarrow> string \<Rightarrow> nat \<Rightarrow> world \<Rightarrow> world" where
  "afterReads meta i 0 w = w"
| "afterReads meta i (Suc k) w = afterReads meta i k (perform meta (GetCall i) w)"


section \<open>Concrete remote sides\<close>

text \<open>A remote side that answers every mutation and every delete the same way, and the
  \<open>n\<close>-th read (counting from 0) by a script; every call takes 100 ms, the read poll
  has 20 s, and the consistency checker accepts.\<close>

fun getCalls :: "event list \<Rightarrow> nat" where
  "getCalls [] = 0"
| "getCalls (GetCall i # evs) = Suc (getCalls evs)"
| "getCalls (ev # evs) = getCalls evs"

definition scripted ::
  "Queue option \<times> int \<times> string option \<Rightarrow> int \<times> string option \<Rightarrow>
   (nat \<Rightarrow> Queue option \<times> int \<times> string option) \<Rightarrow> ProviderMeta" where
  "scripted mutation deletion reads =
     \<lparr>createRoutingQueue = (\<lambda>w r. mutation),
      getRoutingQueue = (\<lambda>w i. reads (getCalls (trace w))),
      updateRoutingQueue = (\<lambda>w i r. mutation),
      deleteRoutingQueue = (\<lambda>w i. deletion),
      latency = (\<lambda>w ev. 100),
      readTimeout = 20 * Second,
      CheckState = (\<lambda>d d'. None)\<rparr>"

definition d0 :: ResourceData where
  "d0 = \<lparr>d_Id = ''Q-1'', d_name = ''Support'', d_calling_party_name = ''Acme'',
          d_enable_transcription = True\<rparr>"

definition w0 :: world where
  "w0 = \<lparr>clock = 0, trace = []\<rparr>"

definition q0 :: Queue where
  "q0 = \<lparr>q_Id = Some ''Q-1'', q_Name = Some ''Support'', q_CallingPartyName = Some ''Acme'',
          q_EnableTranscription = Some True\<rparr>"

text \<open>The delete is accepted and the queue stays readable.\<close>

definition meta_still_present :: ProviderMeta where
  "meta_still_present = scripted (Some q0, 200, None) (204, None) (\<lambda>n. (Some q0, 200, None))"

text \<open>The delete is accepted, the first confirmation read is refused with status 401, the
  second finds nothing.\<close>

definition meta_unauthorized :: ProviderMeta where
  "meta_unauthorized = scripted (Some q0, 200, None) (204, None)
     (\<lambda>n. if n = 0 then (None, 401, Some ''unauthorized'') else (None, 404, Some ''not found''))"

text \<open>Mutations are accepted; the queue is not found on the first two reads and is there
  from the third on.\<close>

definition meta_lagging :: ProviderMeta where
  "meta_lagging = scripted (Some q0, 200, None) (204, None)
     (\<lambda>n. if n < 2 then (None, 404, Some ''not found'') else (Some q0, 200, None))"

text \<open>Every call is rejected.\<close>

definition meta_rejecting :: ProviderMeta where
  "meta_rejecting = scripted (None, 400, Some ''boom'') (400, Some ''boom'')
     (\<lambda>n. (None, 500, Some ''boom''))"

text \<open>Reads succeed with a payload that has no name.\<close>

definition meta_nameless :: ProviderMeta where
  "meta_nameless = scripted (Some q0, 200, None) (204, None)
     (\<lambda>n. (Some (q0\<lparr>q_Name := None\<rparr>), 200, None))"


section \<open>One check of each poll\<close>

lemma readCheck_error:
  assumes "getRoutingQueue meta w (d_Id d) = (currentQueue, respCode, Some e)"
  shows "readCheck meta (d, w) =
           Inr (Some ((if IsStatus404ByInt respCode then RetryableError else NonRetryableError)
                        (''failed to read queue '' @ d_Id d @ '': '' @ e)),
                (d, perform meta (GetCall (d_Id d)) w))"
  using assms by (simp add: readCheck_def)

lemma readCheck_ok:
  assumes "getRoutingQueue meta w (d_Id d) = (currentQueue, respCode, None)"
  shows "readCheck meta (d, w) =
           (case setObserved d currentQueue of
              Inl p \<Rightarrow> Inl p
            | Inr d' \<Rightarrow> Inr (CheckState meta d d', (d', perform meta (GetCall (d_Id d)) w)))"
  using assms by (simp add: readCheck_def)

lemma setObserved_Id: "setObserved d currentQueue = Inr d' \<Longrightarrow> d_Id d' = d_Id d"
  by (auto simp: setObserved_def SetNillableValue_def Let_def split: option.splits)

lemma deleteCheck_branches:
  assumes "getRoutingQueue meta w (d_Id d) = (currentQueue, respCode, err)"
  shows "deleteCheck meta (d, w) =
           Inr (if err = None
                then Some (NonRetryableError (''error deleting routing queue '' @ d_Id d @ '': %!s(<nil>)''))
                else if IsStatus404ByInt respCode then None
                else Some (RetryableError (''routing queue '' @ d_Id d @ '' still exists'')),
                (d, perform meta (GetCall (d_Id d)) w))"
  using assms by (simp add: deleteCheck_def Let_def)

lemma delete_waits_then_polls:
  assumes "snd (deleteRoutingQueue meta w (d_Id d)) = None"
  shows "deleteSimpleRoutingQueue meta d w =
           pollUntil (deleteCheck meta)
             (clock (perform meta (DeleteCall (d_Id d)) w) + 5000 + 30000)
             (d, sleep 5000 (perform meta (DeleteCall (d_Id d)) w))"
  using assms
  by (simp add: deleteSimpleRoutingQueue_def WithRetries_def sleep_def Second_def Let_def)

lemma clock_perform: "clock (perform meta ev w) = clock w + latency meta w ev"
  by (simp add: perform_def)

section \<open>What a poll preserves, and when it returns\<close>

text \<open>An invariant of the state that every check keeps holds of the state a poll ends in.\<close>

lemma pollUntil_invariant_aux:
  "pollUntil c dl s = Some y \<Longrightarrow>
   (\<forall>s r. I s \<longrightarrow> c s = Inr r \<longrightarrow> I (snd r)) \<longrightarrow> I s \<longrightarrow> (\<forall>out s'. y = Inr (out, s') \<longrightarrow> I s')"
proof (induction rule: pollUntil.raw_induct[rotated 1, consumes 1])
  case (1 pu c dl s y)
  show ?case
  proof (intro impI allI)
    fix out s'
    assume step: "\<forall>s r. I s \<longrightarrow> c s = Inr r \<longrightarrow> I (snd r)" and s: "I s" and y: "y = Inr (out, s')"
    show "I s'"
    proof (cases "c s")
      case (Inl p)
      with 1(2) y show ?thesis by simp
    next
      case (Inr r)
      from step s Inr have r: "I (snd r)" by blast
      from 1(1) step y r have IH: "pu c dl (snd r) = Some y \<Longrightarrow> I s'"
        by blast
      from 1(2) y Inr r IH show ?thesis
        by (auto split: option.splits retry_error.splits if_splits)
    qed
  qed
qed

lemma pollUntil_invariant:
  assumes run: "pollUntil checkFn deadline s = Some (Inr (out, s'))"
      and start: "I s"
      and step: "\<And>s r. I s \<Longrightarrow> checkFn s = Inr r \<Longrightarrow> I (snd r)"
  shows "I s'"
  using pollUntil_invariant_aux[OF run, of I] start step by blast

lemma readCheck_step:
  assumes "readCheck meta (d, w) = Inr (a, (d', w'))"
  shows "d_Id d' = d_Id d \<and> w' = perform meta (GetCall (d_Id d)) w"
  using assms
  by (auto simp: readCheck_def Let_def split: option.splits if_splits sum.splits dest: setObserved_Id)

lemma deleteCheck_step:
  assumes "deleteCheck meta (d, w) = Inr (a, (d', w'))"
  shows "d' = d \<and> w' = perform meta (GetCall (d_Id d)) w"
  using assms
  by (auto simp: deleteCheck_def Let_def split: if_splits)

lemma trace_perform: "trace (perform meta ev w) = trace w @ [ev]"
  by (simp add: perform_def)

lemma read_trace:
  assumes "readSimpleRoutingQueue meta d w = Some (Inr (out, (d', w')))"
  shows "d_Id d' = d_Id d \<and> (\<exists>n. trace w' = trace w @ replicate n (GetCall (d_Id d)))"
proof -
  let ?I = "\<lambda>s. d_Id (fst s) = d_Id d \<and> (\<exists>n. trace (snd s) = trace w @ replicate n (GetCall (d_Id d)))"
  have run: "pollUntil (readCheck meta) (clock w + readTimeout meta) (d, w) = Some (Inr (out, (d', w')))"
    using assms by (simp add: readSimpleRoutingQueue_def WithRetriesForRead_def WithRetries_def)
  have start: "?I (d, w)"
    by (simp add: exI[of _ 0])
  have step: "?I (snd r)" if "?I s" and "readCheck meta s = Inr r" for s r
  proof -
    obtain d1 w1 where s: "s = (d1, w1)" by (cases s)
    obtain a d2 w2 where r: "r = (a, (d2, w2))" by (cases r) auto
    from that(2) s r have "d_Id d2 = d_Id d1 \<and> w2 = perform meta (GetCall (d_Id d1)) w1"
      using readCheck_step by blast
    moreover from that(1) s obtain n where "d_Id d1 = d_Id d" "trace w1 = trace w @ replicate n (GetCall (d_Id d))"
      by auto
    ultimately have "d_Id d2 = d_Id d" "trace w2 = trace w @ replicate (Suc n) (GetCall (d_Id d))"
      by (simp_all add: trace_perform replicate_append_same)
    then have "d_Id d2 = d_Id d \<and> (\<exists>k. trace w2 = trace w @ replicate k (GetCall (d_Id d)))"
      by blast
    with r show ?thesis by simp
  qed
  from pollUntil_invariant[where I = ?I, OF run start step] show ?thesis by simp
qed

text \<open>A poll whose check always takes time returns: the distance to the deadline shrinks
  with every retry. So all four operations return when every call to the remote side takes
  time.\<close>

lemma pollUntil_returns:
  assumes progress: "\<And>s r. checkFn s = Inr r \<Longrightarrow> clock (snd s) < clock (snd (snd r))"
  shows "\<exists>y. pollUntil checkFn deadline s = Some y"
proof (induction "deadline - clock (snd s)" arbitrary: s rule: less_induct)
  case less
  show ?case
  proof (cases "checkFn s")
    case (Inl p)
    then show ?thesis
      by (subst pollUntil.simps) simp
  next
    case (Inr r)
    show ?thesis
    proof (cases "\<exists>reason. fst r = Some (RetryableError reason) \<and> \<not> deadline \<le> clock (snd (snd r))")
      case True
      then obtain reason where again: "fst r = Some (RetryableError reason)" "\<not> deadline \<le> clock (snd (snd r))"
        by blast
      from progress[OF Inr] again(2) have "deadline - clock (snd (snd r)) < deadline - clock (snd s)"
        by simp
      from less[OF this] obtain y where "pollUntil checkFn deadline (snd r) = Some y"
        by blast
      with Inr again show ?thesis
        by (subst pollUntil.simps) simp
    next
      case False
      with Inr show ?thesis
        by (subst pollUntil.simps) (auto split: option.splits retry_error.splits)
    qed
  qed
qed

lemma readCheck_progress:
  assumes "\<And>w ev. 0 < latency meta w ev" and "readCheck meta s = Inr r"
  shows "clock (snd s) < clock (snd (snd r))"
  using assms(2) assms(1)[of "snd s" "GetCall (d_Id (fst s))"]
  by (auto simp: readCheck_def Let_def clock_perform split: option.splits if_splits sum.splits)

lemma deleteCheck_progress:
  assumes "\<And>w ev. 0 < latency meta w ev" and "deleteCheck meta s = Inr r"
  shows "clock (snd s) < clock (snd (snd r))"
  using assms(2) assms(1)[of "snd s" "GetCall (d_Id (fst s))"]
  by (auto simp: deleteCheck_def Let_def clock_perform split: if_splits)

lemma read_returns:
  assumes "\<And>w ev. 0 < latency meta w ev"
  shows "\<exists>y. readSimpleRoutingQueue meta d w = Some y"
  unfolding readSimpleRoutingQueue_def WithRetriesForRead_def WithRetries_def
  by (rule pollUntil_returns) (rule readCheck_progress[OF assms])

lemma delete_returns:
  assumes "\<And>w ev. 0 < latency meta w ev"
  shows "\<exists>y. deleteSimpleRoutingQueue meta d w = Some y"
proof (cases "snd (deleteRoutingQueue meta w (d_Id d))")
  case None
  have "\<exists>y. WithRetries (30 * Second) (deleteCheck meta)
              (d, sleep (5 * Second) (perform meta (DeleteCall (d_Id d)) w)) = Some y"
    unfolding WithRetries_def
    by (rule pollUntil_returns) (rule deleteCheck_progress[OF assms])
  with None show ?thesis
    by (simp add: deleteSimpleRoutingQueue_def)
next
  case (Some e)
  then show ?thesis
    by (simp add: deleteSimpleRoutingQueue_def)
qed

lemma create_returns:
  assumes "\<And>w ev. 0 < latency meta w ev"
  shows "\<exists>y. createSimpleRoutingQueue meta d w = Some y"
  using read_returns[OF assms]
  by (simp add: createSimpleRoutingQueue_def Let_def split: option.splits)

lemma update_returns:
  assumes "\<And>w ev. 0 < latency meta w ev"
  shows "\<exists>y. updateSimpleRoutingQueue meta d w = Some y"
  using read_returns[OF assms]
  by (simp add: updateSimpleRoutingQueue_def Let_def split: option.splits)

text \<open>A check that takes no time and always asks for a retry never lets the poll return.\<close>

lemma pollUntil_spins_aux:
  "pollUntil c dl s = Some y \<Longrightarrow>
   (\<forall>s. c s = Inr (Some (RetryableError reason), s)) \<longrightarrow> clock (snd s) < dl \<longrightarrow> False"
proof (induction rule: pollUntil.raw_induct[rotated 1, consumes 1])
  case (1 pu c dl s y)
  show ?case
  proof (intro impI)
    assume still: "\<forall>s. c s = Inr (Some (RetryableError reason), s)" and before: "clock (snd s) < dl"
    from still have "c s = Inr (Some (RetryableError reason), s)"
      by blast
    with 1(2) before have "pu c dl s = Some y"
      by simp
    with 1(1) still before show False
      by blast
  qed
qed

lemma pollUntil_spins:
  assumes "\<And>s. checkFn s = Inr (Some (RetryableError reason), s)"
      and "clock (snd s) < deadline"
  shows "pollUntil checkFn deadline s = None"
proof (cases "pollUntil checkFn deadline s")
  case None
  then show ?thesis .
next
  case (Some y)
  from pollUntil_spins_aux[OF Some, of reason] assms show ?thesis
    by blast
qed

text \<open>Not-found answers that all arrive before the deadline are retried, and the first
  successful read that the consistency checker accepts ends the poll.\<close>

lemma poll_after_notfound:
  assumes notfound: "\<And>k. k < n \<Longrightarrow>
            (\<exists>cq code e. getRoutingQueue meta (afterReads meta (d_Id d) k w) (d_Id d) = (cq, code, Some e)
                \<and> IsStatus404ByInt code)"
      and early: "\<And>k. k < n \<Longrightarrow> clock (afterReads meta (d_Id d) (Suc k) w) < deadline"
      and found: "getRoutingQueue meta (afterReads meta (d_Id d) n w) (d_Id d) = (currentQueue, respCode, None)"
      and written: "setObserved d currentQueue = Inr d'"
      and accepted: "CheckState meta d d' = None"
  shows "pollUntil (readCheck meta) deadline (d, w) =
           Some (Inr (Success, (d', afterReads meta (d_Id d) (Suc n) w)))"
  using notfound early found
proof (induction n arbitrary: w)
  case 0
  from 0(3) have "readCheck meta (d, w) = Inr (None, (d', perform meta (GetCall (d_Id d)) w))"
    using written accepted by (simp add: readCheck_ok)
  then show ?case
    by (subst pollUntil.simps) simp
next
  case (Suc n)
  let ?w1 = "perform meta (GetCall (d_Id d)) w"
  from Suc.prems(1)[of 0] obtain cq code e
    where first: "getRoutingQueue meta w (d_Id d) = (cq, code, Some e)" "IsStatus404ByInt code"
    by auto
  then have chk: "readCheck meta (d, w) =
      Inr (Some (RetryableError (''failed to read queue '' @ d_Id d @ '': '' @ e)), (d, ?w1))"
    by (simp add: readCheck_error)
  from Suc.prems(2)[of 0] have before: "\<not> deadline \<le> clock ?w1"
    by simp
  have rest: "pollUntil (readCheck meta) deadline (d, ?w1) =
           Some (Inr (Success, (d', afterReads meta (d_Id d) (Suc n) ?w1)))"
  proof (rule Suc.IH)
    fix k assume "k < n"
    then have "Suc k < Suc n" by simp
    from Suc.prems(1)[OF this]
    show "\<exists>cq code e. getRoutingQueue meta (afterReads meta (d_Id d) k ?w1) (d_Id d) = (cq, code, Some e)
                \<and> IsStatus404ByInt code"
      by simp
  next
    fix k assume "k < n"
    then have "Suc k < Suc n" by simp
    from Suc.prems(2)[OF this]
    show "clock (afterReads meta (d_Id d) (Suc k) ?w1) < deadline"
      by simp
  next
    from Suc.prems(3)
    show "getRoutingQueue meta (afterReads meta (d_Id d) n ?w1) (d_Id d) = (currentQueue, respCode, None)"
      by simp
  qed
  show ?case
    by (subst pollUntil.simps) (simp add: chk before rest)
qed

section \<open>Delete confirmation\<close>

text \<open>C1. The claim: while the delete is being confirmed, a check that finds the queue still
  present (the read returns no error) is retryable, and only at the ceiling is the still
  existing queue a terminal failure. The code tests \<^verbatim>\<open>err == nil\<close> first and answers
  with a non-retryable error. Evaluated where the delete is accepted and the queue stays
  readable: the first check is non-retryable and the delete fails after that one read, at
  5.2 s, long before its ceiling.\<close>

theorem delete_fails_at_once_while_queue_present:
  "getRoutingQueue meta_still_present (sleep (5 * Second) (perform meta_still_present (DeleteCall ''Q-1'') w0)) ''Q-1''
     = (Some q0, 200, None)
   \<and> deleteCheck meta_still_present (d0, sleep (5 * Second) (perform meta_still_present (DeleteCall ''Q-1'') w0))
     = Inr (Some (NonRetryableError ''error deleting routing queue Q-1: %!s(<nil>)''),
            (d0, \<lparr>clock = 5200, trace = [DeleteCall ''Q-1'', Sleep 5000, GetCall ''Q-1'']\<rparr>))
   \<and> deleteSimpleRoutingQueue meta_still_present d0 w0
     = Some (Inr (TerminalFailure ''error deleting routing queue Q-1: %!s(<nil>)'',
                  (d0, \<lparr>clock = 5200, trace = [DeleteCall ''Q-1'', Sleep 5000, GetCall ''Q-1'']\<rparr>)))"
  by (simp add: deleteSimpleRoutingQueue_def meta_still_present_def scripted_def d0_def w0_def q0_def
      WithRetries_def pollUntil.simps deleteCheck_def perform_def sleep_def Second_def Let_def
      IsStatus404ByInt_def)

text \<open>C2. The claim: while the delete is being confirmed, a read error whose status is not
  not-found is a terminal failure. The code answers such a check with the retryable
  \<^verbatim>\<open>still exists\<close> error. Evaluated where the first confirmation read is refused with
  status 401 and the second is not-found: the first check is retryable and the delete ends
  with success.\<close>

theorem delete_retries_after_transport_failure:
  "getRoutingQueue meta_unauthorized (sleep (5 * Second) (perform meta_unauthorized (DeleteCall ''Q-1'') w0)) ''Q-1''
     = (None, 401, Some ''unauthorized'')
   \<and> \<not> IsStatus404ByInt 401
   \<and> deleteCheck meta_unauthorized (d0, sleep (5 * Second) (perform meta_unauthorized (DeleteCall ''Q-1'') w0))
     = Inr (Some (RetryableError ''routing queue Q-1 still exists''),
            (d0, \<lparr>clock = 5200, trace = [DeleteCall ''Q-1'', Sleep 5000, GetCall ''Q-1'']\<rparr>))
   \<and> deleteSimpleRoutingQueue meta_unauthorized d0 w0
     = Some (Inr (Success,
                  (d0, \<lparr>clock = 5300, trace = [DeleteCall ''Q-1'', Sleep 5000, GetCall ''Q-1'', GetCall ''Q-1'']\<rparr>)))"
  by (simp add: deleteSimpleRoutingQueue_def meta_unauthorized_def scripted_def d0_def w0_def q0_def
      WithRetries_def pollUntil.simps deleteCheck_def perform_def sleep_def Second_def Let_def
      IsStatus404ByInt_def)

section \<open>Create, read, update\<close>

text \<open>C3. Create calls the client's create once. If the client returns an error, create
  returns a terminal failure and the trace has grown by that one call. Otherwise, the
  response carrying an identity, that identity becomes the identity of \<^verbatim>\<open>d\<close>, and the
  result is the result of read for it; whenever this returns, the trace has grown by the
  one create call followed by reads of that identity only.\<close>

theorem create_once_then_read:
  assumes "createRoutingQueue meta w (queueCreate d) = (queueResp, respCode, err)"
  shows "(\<forall>e. err = Some e \<longrightarrow>
           (\<exists>w'. createSimpleRoutingQueue meta d w =
                   Some (Inr (TerminalFailure (''failed to create queue '' @ d_name d @ '': '' @ e), (d, w')))
                 \<and> trace w' = trace w @ [CreateCall (queueCreate d)]))
       \<and> (\<forall>q i. err = None \<and> queueResp = Some q \<and> q_Id q = Some i \<longrightarrow>
             createSimpleRoutingQueue meta d w =
               readSimpleRoutingQueue meta (d\<lparr>d_Id := i\<rparr>) (perform meta (CreateCall (queueCreate d)) w)
             \<and> (\<forall>out d' w'. createSimpleRoutingQueue meta d w = Some (Inr (out, (d', w'))) \<longrightarrow>
                   d_Id d' = i
                   \<and> (\<exists>n. trace w' = trace w @ CreateCall (queueCreate d) # replicate n (GetCall i))))"
proof (intro conjI allI impI)
  fix e assume "err = Some e"
  with assms show "\<exists>w'. createSimpleRoutingQueue meta d w =
                   Some (Inr (TerminalFailure (''failed to create queue '' @ d_name d @ '': '' @ e), (d, w')))
                 \<and> trace w' = trace w @ [CreateCall (queueCreate d)]"
    by (simp add: createSimpleRoutingQueue_def trace_perform)
next
  fix q i assume ok: "err = None \<and> queueResp = Some q \<and> q_Id q = Some i"
  with assms show fall: "createSimpleRoutingQueue meta d w =
               readSimpleRoutingQueue meta (d\<lparr>d_Id := i\<rparr>) (perform meta (CreateCall (queueCreate d)) w)"
    by (simp add: createSimpleRoutingQueue_def)
  fix out d' w'
  assume "createSimpleRoutingQueue meta d w = Some (Inr (out, (d', w')))"
  with fall have "readSimpleRoutingQueue meta (d\<lparr>d_Id := i\<rparr>) (perform meta (CreateCall (queueCreate d)) w)
      = Some (Inr (out, (d', w')))"
    by simp
  from read_trace[OF this]
  show "d_Id d' = i" and "\<exists>n. trace w' = trace w @ CreateCall (queueCreate d) # replicate n (GetCall i)"
    by (simp_all add: trace_perform)
qed

theorem create_once_then_read_witness:
  "createRoutingQueue meta_rejecting w0 (queueCreate (d0\<lparr>d_Id := []\<rparr>)) = (None, 400, Some ''boom'')
   \<and> (\<exists>w'. createSimpleRoutingQueue meta_rejecting (d0\<lparr>d_Id := []\<rparr>) w0 =
              Some (Inr (TerminalFailure ''failed to create queue Support: boom'', (d0\<lparr>d_Id := []\<rparr>, w')))
            \<and> trace w' = [CreateCall (queueCreate (d0\<lparr>d_Id := []\<rparr>))])
   \<and> createRoutingQueue meta_lagging w0 (queueCreate (d0\<lparr>d_Id := []\<rparr>)) = (Some q0, 200, None)
   \<and> q_Id q0 = Some ''Q-1''
   \<and> createSimpleRoutingQueue meta_lagging (d0\<lparr>d_Id := []\<rparr>) w0 =
       readSimpleRoutingQueue meta_lagging d0
         (perform meta_lagging (CreateCall (queueCreate (d0\<lparr>d_Id := []\<rparr>))) w0)"
proof -
  have rejected: "createRoutingQueue meta_rejecting w0 (queueCreate (d0\<lparr>d_Id := []\<rparr>)) = (None, 400, Some ''boom'')"
    by (simp add: meta_rejecting_def scripted_def)
  have accepted: "createRoutingQueue meta_lagging w0 (queueCreate (d0\<lparr>d_Id := []\<rparr>)) = (Some q0, 200, None)"
    by (simp add: meta_lagging_def scripted_def)
  have ident: "q_Id q0 = Some ''Q-1''"
    by (simp add: q0_def)
  have unchanged: "d0\<lparr>d_Id := ''Q-1''\<rparr> = d0"
    by (simp add: d0_def)
  have name: "d_name d0 = ''Support''" "trace w0 = []"
    by (simp_all add: d0_def w0_def)
  from create_once_then_read[OF rejected] create_once_then_read[OF accepted] rejected accepted ident
  show ?thesis
    by (simp add: unchanged name)
qed

text \<open>C4. A check of the read poll whose client read returns an error is retryable if the
  status is not-found and non-retryable otherwise. Hence, when the first \<open>n\<close> reads
  answer not-found, each before the ceiling has elapsed, and the next read succeeds with a
  payload that can be written and that the consistency checker accepts, read returns
  success after \<open>n + 1\<close> reads.\<close>

theorem read_retries_exactly_on_not_found:
  "(getRoutingQueue meta w (d_Id d) = (currentQueue, respCode, Some e) \<longrightarrow>
      readCheck meta (d, w) =
        Inr (Some ((if IsStatus404ByInt respCode then RetryableError else NonRetryableError)
                     (''failed to read queue '' @ d_Id d @ '': '' @ e)),
             (d, perform meta (GetCall (d_Id d)) w)))
   \<and> ((\<forall>k<n. \<exists>cq code e. getRoutingQueue meta (afterReads meta (d_Id d) k w) (d_Id d) = (cq, code, Some e)
                \<and> IsStatus404ByInt code)
      \<and> (\<forall>k<n. clock (afterReads meta (d_Id d) (Suc k) w) < clock w + readTimeout meta)
      \<and> getRoutingQueue meta (afterReads meta (d_Id d) n w) (d_Id d) = (observed, okCode, None)
      \<and> setObserved d observed = Inr d'
      \<and> CheckState meta d d' = None \<longrightarrow>
      readSimpleRoutingQueue meta d w = Some (Inr (Success, (d', afterReads meta (d_Id d) (Suc n) w))))"
proof (intro conjI impI)
  assume "getRoutingQueue meta w (d_Id d) = (currentQueue, respCode, Some e)"
  then show "readCheck meta (d, w) =
        Inr (Some ((if IsStatus404ByInt respCode then RetryableError else NonRetryableError)
                     (''failed to read queue '' @ d_Id d @ '': '' @ e)),
             (d, perform meta (GetCall (d_Id d)) w))"
    by (rule readCheck_error)
next
  assume h: "(\<forall>k<n. \<exists>cq code e. getRoutingQueue meta (afterReads meta (d_Id d) k w) (d_Id d) = (cq, code, Some e)
                \<and> IsStatus404ByInt code)
      \<and> (\<forall>k<n. clock (afterReads meta (d_Id d) (Suc k) w) < clock w + readTimeout meta)
      \<and> getRoutingQueue meta (afterReads meta (d_Id d) n w) (d_Id d) = (observed, okCode, None)
      \<and> setObserved d observed = Inr d'
      \<and> CheckState meta d d' = None"
  have "pollUntil (readCheck meta) (clock w + readTimeout meta) (d, w) =
           Some (Inr (Success, (d', afterReads meta (d_Id d) (Suc n) w)))"
    by (rule poll_after_notfound[where currentQueue = observed and respCode = okCode]) (use h in blast)+
  then show "readSimpleRoutingQueue meta d w = Some (Inr (Success, (d', afterReads meta (d_Id d) (Suc n) w)))"
    by (simp add: readSimpleRoutingQueue_def WithRetriesForRead_def WithRetries_def)
qed

theorem read_retries_exactly_on_not_found_witness:
  "readCheck meta_rejecting (d0, w0) =
     Inr (Some (NonRetryableError ''failed to read queue Q-1: boom''),
          (d0, \<lparr>clock = 100, trace = [GetCall ''Q-1'']\<rparr>))
   \<and> readCheck meta_lagging (d0, w0) =
     Inr (Some (RetryableError ''failed to read queue Q-1: not found''),
          (d0, \<lparr>clock = 100, trace = [GetCall ''Q-1'']\<rparr>))
   \<and> readSimpleRoutingQueue meta_lagging d0 w0 =
     Some (Inr (Success, (d0, \<lparr>clock = 300, trace = [GetCall ''Q-1'', GetCall ''Q-1'', GetCall ''Q-1'']\<rparr>)))"
proof -
  have rejected: "getRoutingQueue meta_rejecting w0 (d_Id d0) = (None, 500, Some ''boom'')"
    by (simp add: meta_rejecting_def scripted_def w0_def)
  have missing: "getRoutingQueue meta_lagging w0 (d_Id d0) = (None, 404, Some ''not found'')"
    by (simp add: meta_lagging_def scripted_def w0_def)
  have lag: "(\<forall>k<Suc (Suc 0). \<exists>cq code e.
                getRoutingQueue meta_lagging (afterReads meta_lagging (d_Id d0) k w0) (d_Id d0) = (cq, code, Some e)
                \<and> IsStatus404ByInt code)
      \<and> (\<forall>k<Suc (Suc 0). clock (afterReads meta_lagging (d_Id d0) (Suc k) w0) < clock w0 + readTimeout meta_lagging)
      \<and> getRoutingQueue meta_lagging (afterReads meta_lagging (d_Id d0) (Suc (Suc 0)) w0) (d_Id d0) = (Some q0, 200, None)
      \<and> setObserved d0 (Some q0) = Inr d0
      \<and> CheckState meta_lagging d0 d0 = None"
    by (simp add: All_less_Suc meta_lagging_def scripted_def w0_def d0_def q0_def perform_def
        IsStatus404ByInt_def Second_def setObserved_def SetNillableValue_def)
  have one: "readCheck meta_rejecting (d0, w0) =
     Inr (Some (NonRetryableError ''failed to read queue Q-1: boom''),
          (d0, \<lparr>clock = 100, trace = [GetCall ''Q-1'']\<rparr>))"
    using read_retries_exactly_on_not_found[of meta_rejecting w0 d0 None 500 "''boom''"] rejected
    by (simp add: IsStatus404ByInt_def perform_def meta_rejecting_def scripted_def w0_def d0_def)
  have two: "readCheck meta_lagging (d0, w0) =
     Inr (Some (RetryableError ''failed to read queue Q-1: not found''),
          (d0, \<lparr>clock = 100, trace = [GetCall ''Q-1'']\<rparr>))"
    using read_retries_exactly_on_not_found[of meta_lagging w0 d0 None 404 "''not found''"] missing
    by (simp add: IsStatus404ByInt_def perform_def meta_lagging_def scripted_def w0_def d0_def)
  have three: "readSimpleRoutingQueue meta_lagging d0 w0 =
     Some (Inr (Success, (d0, \<lparr>clock = 300, trace = [GetCall ''Q-1'', GetCall ''Q-1'', GetCall ''Q-1'']\<rparr>)))"
    using read_retries_exactly_on_not_found[where meta = meta_lagging and w = w0 and d = d0
        and n = "Suc (Suc 0)" and observed = "Some q0" and okCode = 200 and d' = d0] lag
    by (simp add: perform_def meta_lagging_def scripted_def w0_def d0_def)
  from one two three show ?thesis by blast
qed

text \<open>C5. Update calls the client's update once. If the client returns an error, update
  returns a terminal failure and the trace has grown by that one call. Otherwise its result
  is the result of read; whenever this returns, the trace has grown by the one update call
  followed by reads of the identity only.\<close>

theorem update_once_then_read:
  assumes "updateRoutingQueue meta w (d_Id d) (queueUpdate d) = (queueResp, respCode, err)"
  shows "(\<forall>e. err = Some e \<longrightarrow>
           (\<exists>w'. updateSimpleRoutingQueue meta d w =
                   Some (Inr (TerminalFailure (''failed to update queue '' @ d_name d @ '': '' @ e), (d, w')))
                 \<and> trace w' = trace w @ [UpdateCall (d_Id d) (queueUpdate d)]))
       \<and> (err = None \<longrightarrow>
             updateSimpleRoutingQueue meta d w =
               readSimpleRoutingQueue meta d (perform meta (UpdateCall (d_Id d) (queueUpdate d)) w)
             \<and> (\<forall>out d' w'. updateSimpleRoutingQueue meta d w = Some (Inr (out, (d', w'))) \<longrightarrow>
                   d_Id d' = d_Id d
                   \<and> (\<exists>n. trace w' = trace w @ UpdateCall (d_Id d) (queueUpdate d) # replicate n (GetCall (d_Id d)))))"
proof (intro conjI allI impI)
  fix e assume "err = Some e"
  with assms show "\<exists>w'. updateSimpleRoutingQueue meta d w =
                   Some (Inr (TerminalFailure (''failed to update queue '' @ d_name d @ '': '' @ e), (d, w')))
                 \<and> trace w' = trace w @ [UpdateCall (d_Id d) (queueUpdate d)]"
    by (simp add: updateSimpleRoutingQueue_def trace_perform)
next
  assume ok: "err = None"
  with assms show fall: "updateSimpleRoutingQueue meta d w =
               readSimpleRoutingQueue meta d (perform meta (UpdateCall (d_Id d) (queueUpdate d)) w)"
    by (simp add: updateSimpleRoutingQueue_def)
  fix out d' w'
  assume "updateSimpleRoutingQueue meta d w = Some (Inr (out, (d', w')))"
  with fall have "readSimpleRoutingQueue meta d (perform meta (UpdateCall (d_Id d) (queueUpdate d)) w)
      = Some (Inr (out, (d', w')))"
    by simp
  from read_trace[OF this]
  show "d_Id d' = d_Id d"
    and "\<exists>n. trace w' = trace w @ UpdateCall (d_Id d) (queueUpdate d) # replicate n (GetCall (d_Id d))"
    by (simp_all add: trace_perform)
qed

theorem update_once_then_read_witness:
  "updateRoutingQueue meta_rejecting w0 (d_Id d0) (queueUpdate d0) = (None, 400, Some ''boom'')
   \<and> (\<exists>w'. updateSimpleRoutingQueue meta_rejecting d0 w0 =
              Some (Inr (TerminalFailure ''failed to update queue Support: boom'', (d0, w')))
            \<and> trace w' = [UpdateCall ''Q-1'' (queueUpdate d0)])
   \<and> updateRoutingQueue meta_lagging w0 (d_Id d0) (queueUpdate d0) = (Some q0, 200, None)
   \<and> updateSimpleRoutingQueue meta_lagging d0 w0 =
       readSimpleRoutingQueue meta_lagging d0 (perform meta_lagging (UpdateCall ''Q-1'' (queueUpdate d0)) w0)"
proof -
  have rejected: "updateRoutingQueue meta_rejecting w0 (d_Id d0) (queueUpdate d0) = (None, 400, Some ''boom'')"
    by (simp add: meta_rejecting_def scripted_def)
  have accepted: "updateRoutingQueue meta_lagging w0 (d_Id d0) (queueUpdate d0) = (Some q0, 200, None)"
    by (simp add: meta_lagging_def scripted_def)
  have name: "d_name d0 = ''Support''" "d_Id d0 = ''Q-1''" "trace w0 = []"
    by (simp_all add: d0_def w0_def)
  from update_once_then_read[OF rejected] update_once_then_read[OF accepted] rejected accepted
  show ?thesis
    by (simp add: name)
qed

section \<open>Reconciliation\<close>



section \<open>Failures\<close>






section \<open>Idempotence and the nil name\<close>

text \<open>C9. Writing the same observed payload twice leaves the local state the first writing
  left, and panics when the first does.\<close>

theorem setObserved_idempotent:
  "setObservedTwice d currentQueue = setObserved d currentQueue"
  by (simp add: setObservedTwice_def setObserved_def SetNillableValue_def Let_def split: option.splits)

text \<open>C10. A successful read whose payload has nil for the name panics: the name is
  dereferenced without a check, so the check of the read poll panics, and with it read.\<close>

theorem read_panics_on_nil_name:
  assumes "getRoutingQueue meta w (d_Id d) = (Some q, respCode, None)"
      and "q_Name q = None"
  shows "readCheck meta (d, w) = Inl NilPointerDereference
       \<and> readSimpleRoutingQueue meta d w = Some (Inl NilPointerDereference)"
proof -
  from assms have chk: "readCheck meta (d, w) = Inl NilPointerDereference"
    by (simp add: readCheck_ok setObserved_def)
  then have "pollUntil (readCheck meta) (clock w + readTimeout meta) (d, w) = Some (Inl NilPointerDereference)"
    by (subst pollUntil.simps) simp
  with chk show ?thesis
    by (simp add: readSimpleRoutingQueue_def WithRetriesForRead_def WithRetries_def)
qed

theorem read_panics_on_nil_name_witness:
  "getRoutingQueue meta_nameless w0 (d_Id d0) = (Some (q0\<lparr>q_Name := None\<rparr>), 200, None)
   \<and> q_Name (q0\<lparr>q_Name := None\<rparr>) = None
   \<and> q_CallingPartyName (q0\<lparr>q_Name := None\<rparr>) = Some ''Acme''
   \<and> readCheck meta_nameless (d0, w0) = Inl NilPointerDereference
   \<and> readSimpleRoutingQueue meta_nameless d0 w0 = Some (Inl NilPointerDereference)"
proof -
  have seen: "getRoutingQueue meta_nameless w0 (d_Id d0) = (Some (q0\<lparr>q_Name := None\<rparr>), 200, None)"
    by (simp add: meta_nameless_def scripted_def)
  have nameless: "q_Name (q0\<lparr>q_Name := None\<rparr>) = None"
    by simp
  have others: "q_CallingPartyName (q0\<lparr>q_Name := None\<rparr>) = Some ''Acme''"
    by (simp add: q0_def)
  from read_panics_on_nil_name[OF seen nameless] seen nameless others
  show ?thesis by simp
qed

end
